theory Spec2Isabelle
  imports Main
begin

section \<open>The Translator of the i18n article, embedded in HOL\<close>

text \<open>
  The program is the \<^verbatim>\<open>Translator\<close> class that the article
  ``Building a super small and simple i18n script in JavaScript'' develops: the methods
  \<^verbatim>\<open>getLanguage\<close>, \<^verbatim>\<open>constructor\<close>, \<^verbatim>\<open>load\<close>,
  \<^verbatim>\<open>translate\<close> and \<^verbatim>\<open>toggleLangTag\<close>.

  JavaScript values are a datatype, a thrown exception or a rejected promise is the left
  injection of a sum, and the mutable things the methods touch (the instance fields, the
  tagged elements, the root element's \<^verbatim>\<open>lang\<close> attribute, the console) are the
  fields of one record that every method takes and returns.
\<close>

subsection \<open>Values\<close>

text \<open>
  What \<^verbatim>\<open>res.json()\<close> can produce, \<^verbatim>\<open>undefined\<close>, and the members that a value
  inherits from the prototype of its class.

  A number is given by the two things the program can observe of it: whether it is truthy
  (it is neither zero nor NaN) and the string that its conversion gives; the floating-point
  value itself is not modelled. An object is the list of its own properties (one entry per
  name, as the parser leaves it). \<open>JBuiltin cls k\<close> is the member \<open>k\<close> that the values of
  the class \<open>cls\<close> inherit: a function or an object of the host, opaque here.
\<close>

datatype jsvalue =
    JUndefined
  | JNull
  | JBool bool
  | JNum (num_truthy: bool) (num_string: string)
  | JStr string
  | JArr "jsvalue list"
  | JObj "(string \<times> jsvalue) list"
  | JBuiltin string string

text \<open>What a promise can be rejected with, or a statement can throw.\<close>

datatype js_error = TypeError | SyntaxError | NetworkError

text \<open>
  What the host decides about an inherited member: what property access on it gives, and
  the string it converts to (the source text of a built-in function is left to the
  implementation). Every function below that can reach such a member takes the host as its
  first argument.
\<close>

record host =
  builtin_get :: "string \<Rightarrow> string \<Rightarrow> string \<Rightarrow> js_error + jsvalue"
  builtin_string :: "string \<Rightarrow> string \<Rightarrow> js_error + string"

text \<open>
  The condition of \<^verbatim>\<open>if (text)\<close>: JavaScript's conversion to a boolean. Functions and
  objects are truthy.
\<close>

fun truthy :: "jsvalue \<Rightarrow> bool" where
  "truthy JUndefined = False"
| "truthy JNull = False"
| "truthy (JBool b) = b"
| "truthy (JNum t s) = t"
| "truthy (JStr s) = (s \<noteq> [])"
| "truthy (JArr xs) = True"
| "truthy (JObj ps) = True"
| "truthy (JBuiltin cls k) = True"

text \<open>Decimal numerals, for the \<^verbatim>\<open>length\<close> of a string or an array and for indices.\<close>

definition digit_char :: "nat \<Rightarrow> char" where
  "digit_char d = char_of (48 + d)"

function string_of_nat :: "nat \<Rightarrow> string" where
  "string_of_nat n =
     (if n < 10 then [digit_char n] else string_of_nat (n div 10) @ [digit_char (n mod 10)])"
  by pat_completeness auto
termination
  by (relation "measure id") auto

declare string_of_nat.simps [simp del]

definition length_value :: "nat \<Rightarrow> jsvalue" where
  "length_value n = JNum (n \<noteq> 0) (string_of_nat n)"

fun join_comma :: "string list \<Rightarrow> string" where
  "join_comma [] = []"
| "join_comma [s] = s"
| "join_comma (s # t # ts) = s @ CHR '','' # join_comma (t # ts)"

text \<open>The results of a list of steps done from left to right, up to the first that throws.\<close>

fun collect :: "(js_error + 'a) list \<Rightarrow> js_error + 'a list" where
  "collect [] = Inr []"
| "collect (r # rs) =
     (case r of
        Inl err \<Rightarrow> Inl err
      | Inr x \<Rightarrow> (case collect rs of Inl err \<Rightarrow> Inl err | Inr xs \<Rightarrow> Inr (x # xs)))"

text \<open>
  The conversion to a string that the assignment to \<^verbatim>\<open>innerHTML\<close> performs. An array
  joins the conversions of its entries with a comma, \<^verbatim>\<open>null\<close> and \<^verbatim>\<open>undefined\<close>
  entries giving the empty string. An object is converted by the \<^verbatim>\<open>toString\<close> it
  finds: the inherited one gives \<^verbatim>\<open>[object Object]\<close>; an own property of that name,
  which in a parsed document is never a function, makes the conversion throw a TypeError.
\<close>

fun ToString :: "host \<Rightarrow> jsvalue \<Rightarrow> js_error + string" where
  "ToString h JUndefined = Inr ''undefined''"
| "ToString h JNull = Inr ''null''"
| "ToString h (JBool b) = Inr (if b then ''true'' else ''false'')"
| "ToString h (JNum t s) = Inr s"
| "ToString h (JStr s) = Inr s"
| "ToString h (JArr xs) =
     (case collect (map (\<lambda>x. case x of JUndefined \<Rightarrow> Inr [] | JNull \<Rightarrow> Inr []
                                | _ \<Rightarrow> ToString h x) xs) of
        Inl err \<Rightarrow> Inl err
      | Inr ss \<Rightarrow> Inr (join_comma ss))"
| "ToString h (JObj ps) =
     (if map_of ps ''toString'' = None then Inr ''[object Object]'' else Inl TypeError)"
| "ToString h (JBuiltin cls k) = builtin_string h cls k"

text \<open>
  The names that the language standard (ECMAScript 2024 with its annex B) puts on the
  prototypes of the classes of values a parsed document has. The page is taken to add none.
\<close>

definition object_prototype :: "string list" where
  "object_prototype =
     [''constructor'', ''hasOwnProperty'', ''isPrototypeOf'', ''propertyIsEnumerable'',
      ''toLocaleString'', ''toString'', ''valueOf'', ''__proto__'', ''__defineGetter__'',
      ''__defineSetter__'', ''__lookupGetter__'', ''__lookupSetter__'']"

definition array_prototype :: "string list" where
  "array_prototype =
     [''at'', ''concat'', ''constructor'', ''copyWithin'', ''entries'', ''every'', ''fill'',
      ''filter'', ''find'', ''findIndex'', ''findLast'', ''findLastIndex'', ''flat'',
      ''flatMap'', ''forEach'', ''includes'', ''indexOf'', ''join'', ''keys'',
      ''lastIndexOf'', ''map'', ''pop'', ''push'', ''reduce'', ''reduceRight'', ''reverse'',
      ''shift'', ''slice'', ''some'', ''sort'', ''splice'', ''toLocaleString'',
      ''toReversed'', ''toSorted'', ''toSpliced'', ''toString'', ''unshift'', ''values'',
      ''with'']"

definition string_prototype :: "string list" where
  "string_prototype =
     [''at'', ''charAt'', ''charCodeAt'', ''codePointAt'', ''concat'', ''constructor'',
      ''endsWith'', ''includes'', ''indexOf'', ''isWellFormed'', ''lastIndexOf'', ''localeCompare'',
      ''match'', ''matchAll'', ''normalize'', ''padEnd'', ''padStart'', ''repeat'', ''replace'',
      ''replaceAll'', ''search'', ''slice'', ''split'', ''startsWith'', ''substring'',
      ''toLocaleLowerCase'', ''toLocaleUpperCase'', ''toLowerCase'', ''toString'',
      ''toUpperCase'', ''toWellFormed'', ''trim'', ''trimEnd'', ''trimStart'', ''valueOf'', ''substr'',
      ''anchor'', ''big'', ''blink'', ''bold'', ''fixed'', ''fontcolor'', ''fontsize'',
      ''italics'', ''link'', ''small'', ''strike'', ''sub'', ''sup'', ''trimLeft'',
      ''trimRight'']"

definition number_prototype :: "string list" where
  "number_prototype =
     [''constructor'', ''toExponential'', ''toFixed'', ''toLocaleString'', ''toPrecision'',
      ''toString'', ''valueOf'']"

definition boolean_prototype :: "string list" where
  "boolean_prototype = [''constructor'', ''toString'', ''valueOf'']"

text \<open>
  What the prototype chain gives for a name that is not an own property: the member
  inherited under that name, or \<^verbatim>\<open>undefined\<close>.
\<close>

definition inherited :: "string \<Rightarrow> string list \<Rightarrow> string \<Rightarrow> jsvalue" where
  "inherited cls names k = (if k \<in> set names then JBuiltin cls k else JUndefined)"

text \<open>
  Property access \<^verbatim>\<open>obj[i]\<close> with a string \<^verbatim>\<open>i\<close>. On \<^verbatim>\<open>undefined\<close> and
  \<^verbatim>\<open>null\<close> it throws a TypeError. An object gives its own property of that name, a
  string and an array give their \<^verbatim>\<open>length\<close> and their entry at a canonical numeric
  index; a name that is not an own property is looked up along the prototype chain, which
  ends with the prototype of the objects.
\<close>

definition array_index :: "string \<Rightarrow> nat \<Rightarrow> nat option" where
  "array_index k len = find (\<lambda>n. string_of_nat n = k) [0..<len]"

fun js_get :: "host \<Rightarrow> jsvalue \<Rightarrow> string \<Rightarrow> js_error + jsvalue" where
  "js_get h JUndefined k = Inl TypeError"
| "js_get h JNull k = Inl TypeError"
| "js_get h (JBool b) k = Inr (inherited ''Boolean'' (boolean_prototype @ object_prototype) k)"
| "js_get h (JNum t s) k = Inr (inherited ''Number'' (number_prototype @ object_prototype) k)"
| "js_get h (JStr s) k =
     (if k = ''length'' then Inr (length_value (length s))
      else case array_index k (length s) of
             Some n \<Rightarrow> Inr (JStr [s ! n])
           | None \<Rightarrow> Inr (inherited ''String'' (string_prototype @ object_prototype) k))"
| "js_get h (JArr xs) k =
     (if k = ''length'' then Inr (length_value (length xs))
      else case array_index k (length xs) of
             Some n \<Rightarrow> Inr (xs ! n)
           | None \<Rightarrow> Inr (inherited ''Array'' (array_prototype @ object_prototype) k))"
| "js_get h (JObj ps) k =
     (case map_of ps k of
        Some v \<Rightarrow> Inr v
      | None \<Rightarrow> Inr (inherited ''Object'' object_prototype k))"
| "js_get h (JBuiltin cls m) k = builtin_get h cls m k"

text \<open>
  \<^verbatim>\<open>keys.reduce((obj, i) => obj[i], translation)\<close>: the walk from the document root,
  one property access per key; an access that throws ends the walk.
\<close>

fun reduce_get :: "host \<Rightarrow> jsvalue \<Rightarrow> string list \<Rightarrow> js_error + jsvalue" where
  "reduce_get h obj [] = Inr obj"
| "reduce_get h obj (i # keys) =
     (case js_get h obj i of
        Inl err \<Rightarrow> Inl err
      | Inr v \<Rightarrow> reduce_get h v keys)"

text \<open>
  \<^verbatim>\<open>str.split(".")\<close>: the pieces between the dots; the empty string gives one empty
  piece.
\<close>

fun split_dot :: "string \<Rightarrow> string list" where
  "split_dot [] = [[]]"
| "split_dot (c # cs) =
     (if c = CHR ''.'' then [] # split_dot cs
      else case split_dot cs of
             [] \<Rightarrow> [[c]]
           | piece # pieces \<Rightarrow> (c # piece) # pieces)"

subsection \<open>The environment and the state\<close>

text \<open>
  \<^verbatim>\<open>navigator\<close>: the ordered list \<^verbatim>\<open>navigator.languages\<close>, absent in older
  browsers, and the single string \<^verbatim>\<open>navigator.language\<close>.
\<close>

record navigator =
  languages :: "string list option"
  language :: string

text \<open>
  An element carrying \<^verbatim>\<open>data-i18n\<close>: the key \<^verbatim>\<open>element.dataset.i18n\<close> and the
  markup last assigned to \<^verbatim>\<open>element.innerHTML\<close>.
\<close>

record element =
  i18n :: string
  innerHTML :: string

text \<open>
  The instance fields \<^verbatim>\<open>this._lang\<close> and \<^verbatim>\<open>this._elements\<close>, the attribute
  \<^verbatim>\<open>document.documentElement.lang\<close>, the lines written by \<^verbatim>\<open>console.error\<close>, and
  a count of the assignments made to the attribute.
\<close>

record world =
  lang :: string
  elements :: "element list"
  html_lang :: string
  console :: "string list"
  html_lang_writes :: nat

subsection \<open>getLanguage and the constructor\<close>

text \<open>
  \<^verbatim>\<open>var lang = navigator.languages ? navigator.languages[0] : navigator.language;
  return lang.substr(0, 2);\<close>
  An array is truthy even when empty; then its entry 0 is \<^verbatim>\<open>undefined\<close> and
  \<^verbatim>\<open>substr\<close> throws.
\<close>

definition getLanguage :: "navigator \<Rightarrow> js_error + string" where
  "getLanguage nav =
     (case languages nav of
        Some ls \<Rightarrow> (case ls of [] \<Rightarrow> Inl TypeError | l # _ \<Rightarrow> Inr (take 2 l))
      | None \<Rightarrow> Inr (take 2 (language nav)))"

text \<open>
  \<^verbatim>\<open>this._lang = this.getLanguage(); this._elements = document.querySelectorAll("[data-i18n]");\<close>
  The page is given by its tagged elements in document order and the root's attribute.
\<close>

definition new_Translator :: "navigator \<Rightarrow> element list \<Rightarrow> string \<Rightarrow> js_error + world" where
  "new_Translator nav tagged root_lang =
     (case getLanguage nav of
        Inl err \<Rightarrow> Inl err
      | Inr l \<Rightarrow> Inr \<lparr>lang = l, elements = tagged, html_lang = root_lang,
                      console = [], html_lang_writes = 0\<rparr>)"

subsection \<open>toggleLangTag\<close>

text \<open>
  \<^verbatim>\<open>if (document.documentElement.lang !== this._lang) { document.documentElement.lang = this._lang; }\<close>
\<close>

definition toggleLangTag :: "world \<Rightarrow> world" where
  "toggleLangTag w =
     (if html_lang w \<noteq> lang w
      then w\<lparr>html_lang := lang w, html_lang_writes := Suc (html_lang_writes w)\<rparr>
      else w)"

subsection \<open>translate\<close>

text \<open>
  The body of the \<^verbatim>\<open>forEach\<close> callback:
  \<^verbatim>\<open>var keys = element.dataset.i18n.split(".")
  var text = keys.reduce((obj, i) => obj[i], translation)
  if (text) { element.innerHTML = text }\<close>
  It either throws, out of the walk or out of the conversion that the assignment makes, or
  returns the element as it is afterwards.
\<close>

definition translate_element :: "host \<Rightarrow> jsvalue \<Rightarrow> element \<Rightarrow> js_error + element" where
  "translate_element h translation el =
     (let keys = split_dot (i18n el) in
      case reduce_get h translation keys of
        Inl err \<Rightarrow> Inl err
      | Inr txt \<Rightarrow>
          if truthy txt
          then (case ToString h txt of
                  Inl err \<Rightarrow> Inl err
                | Inr markup \<Rightarrow> Inr (el\<lparr>innerHTML := markup\<rparr>))
          else Inr el)"

text \<open>
  \<^verbatim>\<open>this._elements.forEach((element) => { ... })\<close>: the elements in snapshot order.
  An exception thrown by the callback ends the loop; the elements already written keep
  their new content, the others are not reached.
\<close>

fun translate_forEach ::
  "host \<Rightarrow> jsvalue \<Rightarrow> element list \<Rightarrow> element list \<times> js_error option" where
  "translate_forEach h translation [] = ([], None)"
| "translate_forEach h translation (el # els) =
     (case translate_element h translation el of
        Inl err \<Rightarrow> (el # els, Some err)
      | Inr el' \<Rightarrow>
          (case translate_forEach h translation els of
             (els', thrown) \<Rightarrow> (el' # els', thrown)))"

text \<open>
  A computation that has finished: how it ended (thrown or rejected on the left, its value
  on the right) and the state it left.
\<close>

type_synonym 'a settled = "(js_error + 'a) \<times> world"

definition translate :: "host \<Rightarrow> jsvalue \<Rightarrow> world \<Rightarrow> unit settled" where
  "translate h translation w =
     (case translate_forEach h translation (elements w) of
        (els', thrown) \<Rightarrow>
          ((case thrown of Some err \<Rightarrow> Inl err | None \<Rightarrow> Inr ()), w\<lparr>elements := els'\<rparr>))"

subsection \<open>load\<close>

text \<open>
  The network answers a request for a URL with a response, or not at all (then the promise
  of \<^verbatim>\<open>fetch\<close> is rejected). A response has a status, of which \<^verbatim>\<open>res.ok\<close> tells
  whether it is a success (it is not for a missing file), and a body; \<^verbatim>\<open>res.json()\<close>
  gives the body parsed as JSON and is rejected when the body is not JSON. The promise of
  \<^verbatim>\<open>fetch\<close> is fulfilled with the response whatever its status.
\<close>

datatype response = Response (ok: bool) (json: "jsvalue option")

type_synonym network = "string \<Rightarrow> response option"

definition fetch :: "network \<Rightarrow> string \<Rightarrow> js_error + response" where
  "fetch net url = (case net url of None \<Rightarrow> Inl NetworkError | Some res \<Rightarrow> Inr res)"

definition res_json :: "response \<Rightarrow> js_error + jsvalue" where
  "res_json res = (case json res of None \<Rightarrow> Inl SyntaxError | Some v \<Rightarrow> Inr v)"

text \<open>
  \<^verbatim>\<open>fetch(url).then((res) => res.json())\<close>: the retrieval, which touches no state. It
  ends when the body has been read and parsed, or when the request or the parsing has
  failed. \<^verbatim>\<open>res.ok\<close> is not read.
\<close>

definition retrieve :: "network \<Rightarrow> string \<Rightarrow> js_error + jsvalue" where
  "retrieve net url = (case fetch net url of Inl err \<Rightarrow> Inl err | Inr res \<Rightarrow> res_json res)"

text \<open>\<^verbatim>\<open>promise.then(f)\<close> and \<^verbatim>\<open>promise.catch(f)\<close>, on settled promises.\<close>

definition promise_then :: "'a settled \<Rightarrow> ('a \<Rightarrow> world \<Rightarrow> 'b settled) \<Rightarrow> 'b settled" where
  "promise_then p f = (case fst p of Inl err \<Rightarrow> (Inl err, snd p) | Inr v \<Rightarrow> f v (snd p))"

definition promise_catch :: "'a settled \<Rightarrow> (js_error \<Rightarrow> world \<Rightarrow> 'a settled) \<Rightarrow> 'a settled" where
  "promise_catch p f = (case fst p of Inl err \<Rightarrow> f err (snd p) | Inr v \<Rightarrow> (Inr v, snd p))"

definition console_error :: "string \<Rightarrow> world \<Rightarrow> world" where
  "console_error msg w = w\<lparr>console := console w @ [msg]\<rparr>"

text \<open>
  \<^verbatim>\<open>if (lang) { this._lang = lang; }\<close> with the default \<^verbatim>\<open>lang = null\<close>: no argument
  is \<open>None\<close>, and the empty string is falsy as well.
\<close>

definition load_set_lang :: "string option \<Rightarrow> world \<Rightarrow> world" where
  "load_set_lang lang_arg w =
     (case lang_arg of
        None \<Rightarrow> w
      | Some l \<Rightarrow> if l \<noteq> [] then w\<lparr>lang := l\<rparr> else w)"

text \<open>The template \<^verbatim>\<open>`/i18n/${this._lang}.json`\<close>, evaluated when \<^verbatim>\<open>fetch\<close> is called.\<close>

definition load_url :: "world \<Rightarrow> string" where
  "load_url w = ''/i18n/'' @ lang w @ ''.json''"

text \<open>
  What runs once the retrieval has ended, on the state of that moment:
  \<^verbatim>\<open>.then((translation) => { this.translate(translation); })
  .catch(() => { console.error(`Could not load ${this._lang}.json.`) })\<close>
  (the article's listing has one closing parenthesis too many after the template). The
  message reads \<^verbatim>\<open>this._lang\<close> when the handler runs.
\<close>

definition load_settle :: "host \<Rightarrow> js_error + jsvalue \<Rightarrow> world \<Rightarrow> unit settled" where
  "load_settle h retrieved w =
     promise_catch
       (promise_then (retrieved, w) (translate h))
       (\<lambda>err w'. (Inr (), console_error (''Could not load '' @ lang w' @ ''.json.'') w'))"

text \<open>
  \<^verbatim>\<open>load(lang = null)\<close> with the retrieval ending before anything else happens. The
  result is how the promise chain ended and the state it left.
\<close>

definition load :: "host \<Rightarrow> string option \<Rightarrow> network \<Rightarrow> world \<Rightarrow> unit settled" where
  "load h lang_arg net w =
     (let w1 = load_set_lang lang_arg w
      in load_settle h (retrieve net (load_url w1)) w1)"

subsection \<open>Several calls of load in flight\<close>

text \<open>
  The page runs on one thread: a call of \<^verbatim>\<open>load\<close> runs up to its \<^verbatim>\<open>fetch\<close> and
  returns, and the last two handlers of its chain run when its retrieval has ended. A run
  is a sequence of such events over the state and the list of the retrievals in flight,
  each given by its URL. \<open>Settle i\<close> is the end of the retrieval at position \<open>i\<close> of that
  list, that is of the promise \<^verbatim>\<open>fetch(url).then((res) => res.json())\<close> and not of the
  promise of \<^verbatim>\<open>fetch\<close> alone: the body has been read and parsed, or the request or the
  parsing has failed, as the network decides for that URL.
\<close>

datatype event = Load "string option" | Settle nat

fun step :: "host \<Rightarrow> network \<Rightarrow> event \<Rightarrow> world \<times> string list \<Rightarrow> world \<times> string list" where
  "step h net (Load lang_arg) (w, inflight) =
     (let w1 = load_set_lang lang_arg w in (w1, inflight @ [load_url w1]))"
| "step h net (Settle i) (w, inflight) =
     (if i < length inflight
      then (snd (load_settle h (retrieve net (inflight ! i)) w),
            take i inflight @ drop (Suc i) inflight)
      else (w, inflight))"

definition run ::
  "host \<Rightarrow> network \<Rightarrow> event list \<Rightarrow> world \<times> string list \<Rightarrow> world \<times> string list" where
  "run h net evs s = foldl (\<lambda>s' ev. step h net ev s') s evs"

subsection \<open>A host for the closed examples\<close>

text \<open>
  The closed examples need some host. None of them reaches an inherited member, so the
  choice does not matter; this one gives the members no properties and the text of a
  native function.
\<close>

definition example_host :: host where
  "example_host =
     \<lparr>builtin_get = (\<lambda>cls m k. Inr JUndefined),
      builtin_string = (\<lambda>cls m. Inr (''function '' @ m @ ''() { [native code] }''))\<rparr>"

section \<open>Properties\<close>

subsection \<open>Facts about the translate loop\<close>

lemma split_dot_no_dot: "CHR ''.'' \<notin> set s \<Longrightarrow> split_dot s = [s]"
  by (induction s) auto

lemma split_dot_append_dot:
  "CHR ''.'' \<notin> set a \<Longrightarrow> split_dot (a @ CHR ''.'' # b) = a # split_dot b"
  by (induction a) auto

text \<open>A segment that is missing and is not the last one makes the walk throw.\<close>

lemma reduce_get_after_undefined:
  "js_get h obj i = Inr JUndefined \<Longrightarrow> reduce_get h obj (i # i' # keys) = Inl TypeError"
  by simp

text \<open>An own property hides whatever the prototype chain has under its name.\<close>

lemma js_get_own:
  "map_of ps k = Some v \<Longrightarrow> js_get h (JObj ps) k = Inr v"
  by simp


lemma translate_element_string:
  "reduce_get h translation (split_dot (i18n el)) = Inr (JStr s) \<Longrightarrow> s \<noteq> [] \<Longrightarrow>
     translate_element h translation el = Inr (el\<lparr>innerHTML := s\<rparr>)"
  by (simp add: translate_element_def)

lemma translate_element_i18n:
  "translate_element h translation el = Inr el' \<Longrightarrow> i18n el' = i18n el"
  by (auto simp: translate_element_def Let_def split: sum.splits if_splits)

text \<open>Whether the callback throws depends on the key of the element alone.\<close>

lemma translate_element_isl:
  "i18n el = i18n el' \<Longrightarrow>
     isl (translate_element h translation el) = isl (translate_element h translation el')"
  by (simp add: translate_element_def split: sum.splits)

lemma translate_forEach_Cons:
  "translate_forEach h translation (el # els) =
     (case translate_element h translation el of
        Inl err \<Rightarrow> (el # els, Some err)
      | Inr el' \<Rightarrow> (el' # fst (translate_forEach h translation els),
                    snd (translate_forEach h translation els)))"
  by (simp split: sum.splits prod.splits)

lemma translate_forEach_length:
  "length (fst (translate_forEach h translation els)) = length els"
  by (induction els) (auto split: sum.splits prod.splits)

lemma translate_forEach_i18n:
  "map i18n (fst (translate_forEach h translation els)) = map i18n els"
  by (induction els) (auto split: sum.splits prod.splits dest: translate_element_i18n)

text \<open>
  The loop reaches position \<open>i\<close> when no earlier callback has thrown, and leaves there what
  the callback returns.
\<close>

lemma translate_forEach_nth:
  assumes "i < length els"
    and "\<forall>j<i. \<not> isl (translate_element h translation (els ! j))"
    and "translate_element h translation (els ! i) = Inr el'"
  shows "fst (translate_forEach h translation els) ! i = el'"
  using assms
proof (induction els arbitrary: i)
  case Nil
  then show ?case by simp
next
  case (Cons el els)
  show ?case
  proof (cases i)
    case 0
    with Cons.prems show ?thesis
      by (simp add: translate_forEach_Cons del: translate_forEach.simps)
  next
    case (Suc k)
    from Cons.prems(2) Suc have "\<not> isl (translate_element h translation el)"
      by auto
    then obtain e where e: "translate_element h translation el = Inr e"
      by (cases "translate_element h translation el") auto
    have "\<forall>j<k. \<not> isl (translate_element h translation (els ! j))"
      using Cons.prems(2) Suc by auto
    moreover have "k < length els" "translate_element h translation (els ! k) = Inr el'"
      using Cons.prems Suc by auto
    ultimately have "fst (translate_forEach h translation els) ! k = el'"
      using Cons.IH by blast
    with e Suc show ?thesis
      by (simp add: translate_forEach_Cons del: translate_forEach.simps)
  qed
qed

lemma translate_elements:
  "elements (snd (translate h translation w)) =
     fst (translate_forEach h translation (elements w))"
  by (simp add: translate_def split: prod.splits)

lemma translate_elements_nth:
  assumes "i < length (elements w)"
    and "\<forall>j<i. \<not> isl (translate_element h translation (elements w ! j))"
    and "translate_element h translation (elements w ! i) = Inr el'"
  shows "elements (snd (translate h translation w)) ! i = el'"
  using assms by (simp add: translate_elements translate_forEach_nth)

lemma translate_frame:
  "lang (snd (translate h translation w)) = lang w"
  "html_lang (snd (translate h translation w)) = html_lang w"
  "html_lang_writes (snd (translate h translation w)) = html_lang_writes w"
  "console (snd (translate h translation w)) = console w"
  by (simp_all add: translate_def split: prod.splits)

subsection \<open>Facts about the promise chain of load\<close>

lemma load_settle_rejected:
  "load_settle h (Inl err) w =
     (Inr (), console_error (''Could not load '' @ lang w @ ''.json.'') w)"
  by (simp add: load_settle_def promise_then_def promise_catch_def)

lemma load_settle_json:
  "load_settle h (Inr translation) w =
     (case translate h translation w of
        (Inl err, w') \<Rightarrow> (Inr (), console_error (''Could not load '' @ lang w' @ ''.json.'') w')
      | (Inr u, w') \<Rightarrow> (Inr (), w'))"
  by (simp add: load_settle_def promise_then_def promise_catch_def
      split: prod.splits sum.splits)

lemma load_settle_fulfilled: "fst (load_settle h retrieved w) = Inr ()"
  by (cases retrieved)
    (simp_all add: load_settle_rejected load_settle_json split: prod.splits sum.splits)

lemma load_settle_lang: "lang (snd (load_settle h retrieved w)) = lang w"
proof (cases retrieved)
  case (Inl err)
  then show ?thesis by (simp add: load_settle_rejected console_error_def)
next
  case (Inr translation)
  then show ?thesis
    using translate_frame(1) [of h translation w]
    by (auto simp: load_settle_json console_error_def split: prod.splits sum.splits)
qed

lemma load_settle_html_lang:
  "html_lang (snd (load_settle h retrieved w)) = html_lang w \<and>
   html_lang_writes (snd (load_settle h retrieved w)) = html_lang_writes w"
proof (cases retrieved)
  case (Inl err)
  then show ?thesis by (simp add: load_settle_rejected console_error_def)
next
  case (Inr translation)
  then show ?thesis
    using translate_frame(2,3) [of h translation w]
    by (auto simp: load_settle_json console_error_def split: prod.splits sum.splits)
qed

lemma load_settle_elements_json:
  "elements (snd (load_settle h (Inr translation) w)) =
     elements (snd (translate h translation w))"
  by (simp add: load_settle_json console_error_def split: prod.splits sum.splits)

lemma load_settle_i18n:
  "map i18n (elements (snd (load_settle h retrieved w))) = map i18n (elements w)"
proof (cases retrieved)
  case (Inl err)
  then show ?thesis by (simp add: load_settle_rejected console_error_def)
next
  case (Inr translation)
  then show ?thesis
    by (simp add: load_settle_elements_json translate_elements translate_forEach_i18n)
qed

text \<open>
  When the retrieval fails (the request fails, or the body is not JSON), the chain ends
  fulfilled and nothing happens but one line on the console.
\<close>

lemma load_rejected_retrieval:
  assumes "retrieve net (load_url (load_set_lang lang_arg w)) = Inl err"
  shows "load h lang_arg net w =
           (Inr (), (load_set_lang lang_arg w)
              \<lparr>console := console w @
                 [''Could not load '' @ lang (load_set_lang lang_arg w) @ ''.json.'']\<rparr>)"
  using assms
  by (auto simp: load_def load_settle_rejected console_error_def load_set_lang_def
      split: option.splits)

text \<open>
  What a document that arrives writes depends on the keys of the elements only, not on
  what an earlier document wrote.
\<close>

lemma load_settle_overwrites:
  assumes keys: "map i18n (elements w') = map i18n (elements w)"
    and i: "i < length (elements w)"
    and reach: "\<forall>j<i. \<not> isl (translate_element h translation (elements w ! j))"
    and res: "reduce_get h translation (split_dot (i18n (elements w ! i))) = Inr (JStr s)"
    and s: "s \<noteq> []"
  shows "innerHTML (elements (snd (load_settle h (Inr translation) w')) ! i) = s"
proof -
  have len: "length (elements w') = length (elements w)"
    using keys by (metis length_map)
  have key: "i18n (elements w' ! j) = i18n (elements w ! j)" if "j < length (elements w)" for j
    using keys that len by (metis nth_map)
  have "\<forall>j<i. \<not> isl (translate_element h translation (elements w' ! j))"
  proof (intro allI impI)
    fix j assume "j < i"
    then have "i18n (elements w' ! j) = i18n (elements w ! j)"
      using i key by simp
    then show "\<not> isl (translate_element h translation (elements w' ! j))"
      using reach \<open>j < i\<close> translate_element_isl [of "elements w' ! j" "elements w ! j" h translation]
      by simp
  qed
  moreover have "translate_element h translation (elements w' ! i) =
      Inr ((elements w' ! i)\<lparr>innerHTML := s\<rparr>)"
    using res s i key by (intro translate_element_string) simp_all
  ultimately have "elements (snd (translate h translation w')) ! i =
      (elements w' ! i)\<lparr>innerHTML := s\<rparr>"
    using i len by (intro translate_elements_nth) simp_all
  then show ?thesis
    by (simp add: load_settle_elements_json)
qed

subsection \<open>Facts about runs with two retrievals in flight\<close>

lemma run_two_loads:
  "la \<noteq> [] \<Longrightarrow> lb \<noteq> [] \<Longrightarrow>
     run h net [Load (Some la), Load (Some lb)] (w, []) =
       (w\<lparr>lang := lb\<rparr>, [''/i18n/'' @ la @ ''.json'', ''/i18n/'' @ lb @ ''.json''])"
  by (simp add: run_def load_set_lang_def load_url_def)

text \<open>A call of \<^verbatim>\<open>load\<close> on its own is its two events, one after the other.\<close>

lemma run_load_settle:
  "run h net [Load lang_arg, Settle 0] (w, []) = (snd (load h lang_arg net w), [])"
  by (simp add: run_def load_def Let_def)

lemma run_append: "run h net (evs @ evs') s = run h net evs' (run h net evs s)"
  by (simp add: run_def)

lemma run_settle_first_then_second:
  "run h net [Settle 0, Settle 0] (w, [ua, ub]) =
     (snd (load_settle h (retrieve net ub) (snd (load_settle h (retrieve net ua) w))), [])"
  by (simp add: run_def)

lemma run_settle_second_then_first:
  "run h net [Settle (Suc 0), Settle 0] (w, [ua, ub]) =
     (snd (load_settle h (retrieve net ua) (snd (load_settle h (retrieve net ub) w))), [])"
  by (simp add: run_def)

subsection \<open>Language detection\<close>

text \<open>
  Claim C5. Language detection takes the first entry of \<^verbatim>\<open>navigator.languages\<close> when
  the list is there (and has a first entry), otherwise the single string
  \<^verbatim>\<open>navigator.language\<close>, and returns its first two characters. The list
  \<^verbatim>\<open>["en-US", "en", "de-DE"]\<close> gives \<^verbatim>\<open>"en"\<close> whatever the single string is, and
  the single string \<^verbatim>\<open>"fr-FR"\<close> with no list gives \<^verbatim>\<open>"fr"\<close>.
\<close>

theorem getLanguage_first_entry_two_chars:
  "(languages nav = Some (l # ls) \<longrightarrow> getLanguage nav = Inr (take 2 l)) \<and>
   (languages nav = None \<longrightarrow> getLanguage nav = Inr (take 2 (language nav))) \<and>
   getLanguage \<lparr>languages = Some [''en-US'', ''en'', ''de-DE''], language = single\<rparr> = Inr ''en'' \<and>
   getLanguage \<lparr>languages = None, language = ''fr-FR''\<rparr> = Inr ''fr''"
  by (simp add: getLanguage_def)

theorem getLanguage_first_entry_two_chars_witness:
  "getLanguage \<lparr>languages = Some [''de-DE'', ''en''], language = ''en-GB''\<rparr> = Inr ''de'' \<and>
   getLanguage \<lparr>languages = None, language = ''en-GB''\<rparr> = Inr ''en''"
  using getLanguage_first_entry_two_chars
          [of "\<lparr>languages = Some [''de-DE'', ''en''], language = ''en-GB''\<rparr>" "''de-DE''" "[''en'']"]
        getLanguage_first_entry_two_chars
          [of "\<lparr>languages = None, language = ''en-GB''\<rparr>"]
  by simp

subsection \<open>toggleLangTag\<close>

text \<open>
  Claim C8. \<^verbatim>\<open>toggleLangTag\<close> is idempotent: it assigns the root's \<^verbatim>\<open>lang\<close>
  attribute only when the attribute differs from the active language, so a second call
  right after the first changes nothing, and two calls in a row assign the attribute at
  most once.
\<close>

theorem toggleLangTag_idempotent:
  "toggleLangTag (toggleLangTag w) = toggleLangTag w \<and>
   html_lang (toggleLangTag w) = lang w \<and>
   lang (toggleLangTag w) = lang w \<and>
   html_lang_writes (toggleLangTag (toggleLangTag w)) \<le> Suc (html_lang_writes w) \<and>
   (html_lang w = lang w \<longrightarrow> toggleLangTag w = w) \<and>
   (html_lang w \<noteq> lang w \<longrightarrow>
      toggleLangTag w = w\<lparr>html_lang := lang w, html_lang_writes := Suc (html_lang_writes w)\<rparr>)"
  by (simp add: toggleLangTag_def)

theorem toggleLangTag_idempotent_witness:
  "toggleLangTag (toggleLangTag \<lparr>lang = ''de'', elements = [], html_lang = ''en'', console = [],
       html_lang_writes = 0\<rparr>) =
     \<lparr>lang = ''de'', elements = [], html_lang = ''de'', console = [], html_lang_writes = 1\<rparr> \<and>
   toggleLangTag \<lparr>lang = ''de'', elements = [], html_lang = ''de'', console = [],
       html_lang_writes = 1\<rparr> =
     \<lparr>lang = ''de'', elements = [], html_lang = ''de'', console = [], html_lang_writes = 1\<rparr>"
  using toggleLangTag_idempotent
          [of "\<lparr>lang = ''de'', elements = [], html_lang = ''en'', console = [], html_lang_writes = 0\<rparr>"]
        toggleLangTag_idempotent
          [of "\<lparr>lang = ''de'', elements = [], html_lang = ''de'', console = [], html_lang_writes = 1\<rparr>"]
  by simp

subsection \<open>translate\<close>

text \<open>
  Claim C4. For an element whose whole key path resolves to a non-empty string of the
  translation document, \<^verbatim>\<open>translate\<close> overwrites the element's content with exactly
  that string. The two examples of the claim hold: in \<^verbatim>\<open>{a: {b: "X"}}\<close> the path
  \<^verbatim>\<open>a.b\<close> resolves to \<^verbatim>\<open>"X"\<close>, and the elements keyed \<^verbatim>\<open>greeting\<close>,
  \<^verbatim>\<open>header.title\<close> and \<^verbatim>\<open>header.button\<close> end with the three strings of the
  document (third and fourth conjunct). The claim does not hold for every element: with
  one more element in front whose key \<^verbatim>\<open>footer.note\<close> misses at its first segment,
  the walk of that element throws, the loop ends, and the three elements keep their old
  content (first conjunct) although their paths resolve as before (second conjunct, for
  \<^verbatim>\<open>greeting\<close>).
\<close>

theorem translate_resolved_leaf_not_reached:
  "translate h
     (JObj [(''greeting'', JStr ''Hello World''),
            (''header'', JObj [(''title'', JStr ''Header''), (''button'', JStr ''Click me!'')])])
     (w\<lparr>elements := [\<lparr>i18n = ''footer.note'', innerHTML = c0\<rparr>,
                      \<lparr>i18n = ''greeting'', innerHTML = c1\<rparr>,
                      \<lparr>i18n = ''header.title'', innerHTML = c2\<rparr>,
                      \<lparr>i18n = ''header.button'', innerHTML = c3\<rparr>]\<rparr>) =
     (Inl TypeError,
      w\<lparr>elements := [\<lparr>i18n = ''footer.note'', innerHTML = c0\<rparr>,
                      \<lparr>i18n = ''greeting'', innerHTML = c1\<rparr>,
                      \<lparr>i18n = ''header.title'', innerHTML = c2\<rparr>,
                      \<lparr>i18n = ''header.button'', innerHTML = c3\<rparr>]\<rparr>) \<and>
   reduce_get h
     (JObj [(''greeting'', JStr ''Hello World''),
            (''header'', JObj [(''title'', JStr ''Header''), (''button'', JStr ''Click me!'')])])
     (split_dot ''greeting'') = Inr (JStr ''Hello World'') \<and>
   reduce_get h (JObj [(''a'', JObj [(''b'', JStr ''X'')])]) (split_dot ''a.b'') = Inr (JStr ''X'') \<and>
   translate h
     (JObj [(''greeting'', JStr ''Hello World''),
            (''header'', JObj [(''title'', JStr ''Header''), (''button'', JStr ''Click me!'')])])
     (w\<lparr>elements := [\<lparr>i18n = ''greeting'', innerHTML = c1\<rparr>,
                      \<lparr>i18n = ''header.title'', innerHTML = c2\<rparr>,
                      \<lparr>i18n = ''header.button'', innerHTML = c3\<rparr>]\<rparr>) =
     (Inr (), w\<lparr>elements := [\<lparr>i18n = ''greeting'', innerHTML = ''Hello World''\<rparr>,
                              \<lparr>i18n = ''header.title'', innerHTML = ''Header''\<rparr>,
                              \<lparr>i18n = ''header.button'', innerHTML = ''Click me!''\<rparr>]\<rparr>)"
  by (simp add: translate_def translate_element_def inherited_def object_prototype_def)




text \<open>
  Claim C2. An element whose key path fails to resolve at some segment keeps its content,
  and \<^verbatim>\<open>translate\<close> throws nothing at its caller. The code meets this only when the
  segment that is missing is the last one of the path (second equation: the path
  \<^verbatim>\<open>a.c\<close> in \<^verbatim>\<open>{a: {b: "X"}}\<close>). When a segment follows the missing one, the walk
  indexes \<^verbatim>\<open>undefined\<close> and \<^verbatim>\<open>translate\<close> ends with a TypeError (first equation:
  the path \<^verbatim>\<open>a.c.d\<close>); and a path that runs on into a string leaf can resolve to its
  \<^verbatim>\<open>length\<close>, which is written (third equation).
\<close>

theorem translate_missing_branch_throws:
  "translate h (JObj [(''a'', JObj [(''b'', JStr ''X'')])])
     (w\<lparr>elements := [\<lparr>i18n = ''a.c.d'', innerHTML = c\<rparr>]\<rparr>) =
     (Inl TypeError, w\<lparr>elements := [\<lparr>i18n = ''a.c.d'', innerHTML = c\<rparr>]\<rparr>) \<and>
   translate h (JObj [(''a'', JObj [(''b'', JStr ''X'')])])
     (w\<lparr>elements := [\<lparr>i18n = ''a.c'', innerHTML = c\<rparr>]\<rparr>) =
     (Inr (), w\<lparr>elements := [\<lparr>i18n = ''a.c'', innerHTML = c\<rparr>]\<rparr>) \<and>
   translate h (JObj [(''a'', JObj [(''b'', JStr ''X'')])])
     (w\<lparr>elements := [\<lparr>i18n = ''a.b.length'', innerHTML = c\<rparr>]\<rparr>) =
     (Inr (), w\<lparr>elements := [\<lparr>i18n = ''a.b.length'', innerHTML = ''1''\<rparr>]\<rparr>)"
proof -
  have one: "string_of_nat (Suc 0) = ''1''"
    by code_simp
  show ?thesis
    by (simp add: translate_def translate_element_def inherited_def object_prototype_def
        length_value_def one)
qed

text \<open>
  Claim C6. The updates of \<^verbatim>\<open>translate\<close> are independent: an element whose key path
  does not resolve does not keep the elements after it from being resolved and updated.
  The code meets this when the failed walk ends in \<^verbatim>\<open>undefined\<close> (second equation).
  When the failed walk throws, the exception ends the \<^verbatim>\<open>forEach\<close> loop, and the
  element after it, whose key \<^verbatim>\<open>greeting\<close> resolves, keeps its old content (first
  equation).
\<close>

theorem translate_throw_blocks_later_elements:
  "translate h (JObj [(''greeting'', JStr ''Hello World'')])
     (w\<lparr>elements := [\<lparr>i18n = ''header.title'', innerHTML = c1\<rparr>,
                      \<lparr>i18n = ''greeting'', innerHTML = c2\<rparr>]\<rparr>) =
     (Inl TypeError, w\<lparr>elements := [\<lparr>i18n = ''header.title'', innerHTML = c1\<rparr>,
                                     \<lparr>i18n = ''greeting'', innerHTML = c2\<rparr>]\<rparr>) \<and>
   translate h (JObj [(''greeting'', JStr ''Hello World'')])
     (w\<lparr>elements := [\<lparr>i18n = ''header'', innerHTML = c1\<rparr>,
                      \<lparr>i18n = ''greeting'', innerHTML = c2\<rparr>]\<rparr>) =
     (Inr (), w\<lparr>elements := [\<lparr>i18n = ''header'', innerHTML = c1\<rparr>,
                              \<lparr>i18n = ''greeting'', innerHTML = ''Hello World''\<rparr>]\<rparr>)"
  by (simp add: translate_def translate_element_def inherited_def object_prototype_def)

subsection \<open>load\<close>

text \<open>
  Claim C7. A language code passed to \<^verbatim>\<open>load\<close> (a non-empty string; the empty string
  is falsy and counts as no argument) replaces the active language as it is before the
  request is made: the request goes to the URL built from the whole code, nothing is cut to
  two letters, and the active language afterwards is that code.
\<close>

theorem load_explicit_code_verbatim:
  "l \<noteq> [] \<Longrightarrow>
     load h (Some l) net w =
       load_settle h (retrieve net (''/i18n/'' @ l @ ''.json'')) (w\<lparr>lang := l\<rparr>) \<and>
     lang (snd (load h (Some l) net w)) = l"
  by (simp add: load_def load_set_lang_def load_url_def load_settle_lang)

theorem load_explicit_code_verbatim_witness:
  "load example_host (Some ''en-US'')
     [''/i18n/en-US.json'' \<mapsto> Response True (Some (JObj [(''greeting'', JStr ''Howdy'')]))]
     \<lparr>lang = ''de'', elements = [\<lparr>i18n = ''greeting'', innerHTML = ''Hallo''\<rparr>], html_lang = ''de'',
      console = [], html_lang_writes = 0\<rparr> =
   (Inr (), \<lparr>lang = ''en-US'', elements = [\<lparr>i18n = ''greeting'', innerHTML = ''Howdy''\<rparr>],
      html_lang = ''de'', console = [], html_lang_writes = 0\<rparr>)"
  using load_explicit_code_verbatim
          [of "''en-US''" example_host
              "[''/i18n/en-US.json'' \<mapsto> Response True (Some (JObj [(''greeting'', JStr ''Howdy'')]))]"
              "\<lparr>lang = ''de'', elements = [\<lparr>i18n = ''greeting'', innerHTML = ''Hallo''\<rparr>],
                html_lang = ''de'', console = [], html_lang_writes = 0\<rparr>"]
  by (simp add: retrieve_def fetch_def res_json_def load_settle_json translate_def
      translate_element_def)

text \<open>
  Claim C3. When the retrieval of a call of \<^verbatim>\<open>load\<close> fails (resource missing,
  malformed data or network failure), the failure is only logged, nothing is thrown at the
  caller, every element is as before the call, and the active language is the attempted
  code. The code meets this when the request fails or the body is not JSON. It does not
  for a missing resource that the server answers with a JSON body: \<^verbatim>\<open>fetch\<close> is
  fulfilled with the response, \<^verbatim>\<open>res.ok\<close> is not read, and the body of the error is
  applied as the translation document. Here the file \<^verbatim>\<open>de.json\<close> is missing and the
  answer is \<^verbatim>\<open>{"message": "Not Found"}\<close>: the element keyed \<^verbatim>\<open>message\<close> is
  overwritten and nothing is logged.
\<close>

theorem load_missing_resource_translated:
  "load h (Some ''de'')
     [''/i18n/de.json'' \<mapsto> Response False (Some (JObj [(''message'', JStr ''Not Found'')]))]
     \<lparr>lang = ''en'',
      elements = [\<lparr>i18n = ''greeting'', innerHTML = ''Hello World''\<rparr>,
                  \<lparr>i18n = ''message'', innerHTML = ''Welcome''\<rparr>],
      html_lang = ''en'', console = [], html_lang_writes = 0\<rparr> =
   (Inr (), \<lparr>lang = ''de'',
      elements = [\<lparr>i18n = ''greeting'', innerHTML = ''Hello World''\<rparr>,
                  \<lparr>i18n = ''message'', innerHTML = ''Not Found''\<rparr>],
      html_lang = ''en'', console = [], html_lang_writes = 0\<rparr>)"
  by (simp add: load_def load_set_lang_def load_url_def retrieve_def fetch_def res_json_def
      load_settle_json translate_def translate_element_def inherited_def object_prototype_def)

text \<open>
  Claim C1. After a successful retrieval \<^verbatim>\<open>load\<close> applies \<^verbatim>\<open>translate\<close> with the
  retrieved document and then sets the root's \<^verbatim>\<open>lang\<close> attribute to the active language
  when it differs. The code does the first and not the second: \<^verbatim>\<open>load\<close> never calls
  \<^verbatim>\<open>toggleLangTag\<close>, so no call of \<^verbatim>\<open>load\<close> changes the attribute. With the page in
  English, \<^verbatim>\<open>load("de")\<close> and a German file that arrives, the content and the active
  language become German and the attribute stays \<^verbatim>\<open>"en"\<close>.
\<close>

theorem load_never_writes_html_lang:
  "html_lang (snd (load h lang_arg net w)) = html_lang w \<and>
   html_lang_writes (snd (load h lang_arg net w)) = html_lang_writes w \<and>
   load h (Some ''de'')
     [''/i18n/de.json'' \<mapsto> Response True (Some (JObj [(''greeting'', JStr ''Hallo Welt'')]))]
     \<lparr>lang = ''en'', elements = [\<lparr>i18n = ''greeting'', innerHTML = ''Hello World''\<rparr>],
      html_lang = ''en'', console = [], html_lang_writes = 0\<rparr> =
   (Inr (), \<lparr>lang = ''de'', elements = [\<lparr>i18n = ''greeting'', innerHTML = ''Hallo Welt''\<rparr>],
      html_lang = ''en'', console = [], html_lang_writes = 0\<rparr>)"
proof (intro conjI)
  show "html_lang (snd (load h lang_arg net w)) = html_lang w"
    by (simp add: load_def Let_def load_settle_html_lang load_set_lang_def split: option.splits)
  show "html_lang_writes (snd (load h lang_arg net w)) = html_lang_writes w"
    by (simp add: load_def Let_def load_settle_html_lang load_set_lang_def split: option.splits)
  show "load h (Some ''de'')
     [''/i18n/de.json'' \<mapsto> Response True (Some (JObj [(''greeting'', JStr ''Hallo Welt'')]))]
     \<lparr>lang = ''en'', elements = [\<lparr>i18n = ''greeting'', innerHTML = ''Hello World''\<rparr>],
      html_lang = ''en'', console = [], html_lang_writes = 0\<rparr> =
   (Inr (), \<lparr>lang = ''de'', elements = [\<lparr>i18n = ''greeting'', innerHTML = ''Hallo Welt''\<rparr>],
      html_lang = ''en'', console = [], html_lang_writes = 0\<rparr>)"
    by (simp add: load_def load_set_lang_def load_url_def retrieve_def fetch_def res_json_def
        load_settle_json translate_def translate_element_def)
qed

subsection \<open>Overlapping calls of load\<close>

text \<open>
  Claim C9, as amended. When \<^verbatim>\<open>load\<close> is called again before the retrieval of an
  earlier call has ended, both retrievals are in flight (nothing is cancelled or queued),
  and the document of each is applied when its retrieval ends, that is when its body has
  been read and parsed. The active language is assigned when \<^verbatim>\<open>load\<close> is called, so
  after both retrievals have ended it is the code of the later call, in either order. The
  content is last-write-wins: when the retrieval that ends last gives a document, every
  element whose key path resolves in it to a non-empty string, and that its loop reaches
  (no callback before it throws), ends with that string, whatever the other document wrote.
\<close>

theorem overlapping_loads:
  assumes "la \<noteq> []" and "lb \<noteq> []"
  shows
  "run h net [Load (Some la), Load (Some lb)] (w, []) =
     (w\<lparr>lang := lb\<rparr>, [''/i18n/'' @ la @ ''.json'', ''/i18n/'' @ lb @ ''.json'']) \<and>
   run h net [Load (Some la), Load (Some lb), Settle 0, Settle 0] (w, []) =
     (snd (load_settle h (retrieve net (''/i18n/'' @ lb @ ''.json''))
        (snd (load_settle h (retrieve net (''/i18n/'' @ la @ ''.json'')) (w\<lparr>lang := lb\<rparr>)))), []) \<and>
   run h net [Load (Some la), Load (Some lb), Settle 1, Settle 0] (w, []) =
     (snd (load_settle h (retrieve net (''/i18n/'' @ la @ ''.json''))
        (snd (load_settle h (retrieve net (''/i18n/'' @ lb @ ''.json'')) (w\<lparr>lang := lb\<rparr>)))), []) \<and>
   lang (fst (run h net [Load (Some la), Load (Some lb), Settle 0, Settle 0] (w, []))) = lb \<and>
   lang (fst (run h net [Load (Some la), Load (Some lb), Settle 1, Settle 0] (w, []))) = lb \<and>
   (retrieve net (''/i18n/'' @ lb @ ''.json'') = Inr translation \<and>
    i < length (elements w) \<and>
    (\<forall>j<i. \<not> isl (translate_element h translation (elements w ! j))) \<and>
    reduce_get h translation (split_dot (i18n (elements w ! i))) = Inr (JStr s) \<and> s \<noteq> [] \<longrightarrow>
      innerHTML (elements (fst (run h net
        [Load (Some la), Load (Some lb), Settle 0, Settle 0] (w, []))) ! i) = s) \<and>
   (retrieve net (''/i18n/'' @ la @ ''.json'') = Inr translation \<and>
    i < length (elements w) \<and>
    (\<forall>j<i. \<not> isl (translate_element h translation (elements w ! j))) \<and>
    reduce_get h translation (split_dot (i18n (elements w ! i))) = Inr (JStr s) \<and> s \<noteq> [] \<longrightarrow>
      innerHTML (elements (fst (run h net
        [Load (Some la), Load (Some lb), Settle 1, Settle 0] (w, []))) ! i) = s)"
proof -
  let ?ua = "''/i18n/'' @ la @ ''.json''" and ?ub = "''/i18n/'' @ lb @ ''.json''"
  let ?w = "w\<lparr>lang := lb\<rparr>"
  have two: "run h net [Load (Some la), Load (Some lb)] (w, []) = (?w, [?ua, ?ub])"
    using assms by (rule run_two_loads)
  have ab: "run h net [Load (Some la), Load (Some lb), Settle 0, Settle 0] (w, []) =
      (snd (load_settle h (retrieve net ?ub) (snd (load_settle h (retrieve net ?ua) ?w))), [])"
    using run_append [of h net "[Load (Some la), Load (Some lb)]" "[Settle 0, Settle 0]" "(w, [])"]
    by (simp add: two run_settle_first_then_second)
  have ba: "run h net [Load (Some la), Load (Some lb), Settle 1, Settle 0] (w, []) =
      (snd (load_settle h (retrieve net ?ua) (snd (load_settle h (retrieve net ?ub) ?w))), [])"
    using run_append [of h net "[Load (Some la), Load (Some lb)]" "[Settle 1, Settle 0]" "(w, [])"]
    by (simp add: two run_settle_second_then_first)
  have keys: "map i18n (elements (snd (load_settle h r ?w))) = map i18n (elements w)" for r
    by (simp add: load_settle_i18n)
  have last: "innerHTML (elements (snd (load_settle h (Inr translation)
      (snd (load_settle h r ?w)))) ! i) = s"
    if "i < length (elements w)"
      "\<forall>j<i. \<not> isl (translate_element h translation (elements w ! j))"
      "reduce_get h translation (split_dot (i18n (elements w ! i))) = Inr (JStr s)" "s \<noteq> []"
    for r
    using load_settle_overwrites [OF keys that] by simp
  show ?thesis
    using two ab ba last by (simp add: load_settle_lang)
qed

theorem overlapping_loads_witness:
  "run example_host
     [''/i18n/de.json'' \<mapsto> Response True (Some (JObj [(''greeting'', JStr ''Hallo Welt'')])),
      ''/i18n/es.json'' \<mapsto> Response True (Some (JObj [(''greeting'', JStr ''Hola Mundo'')]))]
     [Load (Some ''de''), Load (Some ''es'')]
     (\<lparr>lang = ''en'', elements = [\<lparr>i18n = ''greeting'', innerHTML = ''Hello World''\<rparr>],
       html_lang = ''en'', console = [], html_lang_writes = 0\<rparr>, []) =
   (\<lparr>lang = ''es'', elements = [\<lparr>i18n = ''greeting'', innerHTML = ''Hello World''\<rparr>],
      html_lang = ''en'', console = [], html_lang_writes = 0\<rparr>,
    [''/i18n/de.json'', ''/i18n/es.json'']) \<and>
   innerHTML (elements (fst (run example_host
     [''/i18n/de.json'' \<mapsto> Response True (Some (JObj [(''greeting'', JStr ''Hallo Welt'')])),
      ''/i18n/es.json'' \<mapsto> Response True (Some (JObj [(''greeting'', JStr ''Hola Mundo'')]))]
     [Load (Some ''de''), Load (Some ''es''), Settle 0, Settle 0]
     (\<lparr>lang = ''en'', elements = [\<lparr>i18n = ''greeting'', innerHTML = ''Hello World''\<rparr>],
       html_lang = ''en'', console = [], html_lang_writes = 0\<rparr>, []))) ! 0) = ''Hola Mundo'' \<and>
   innerHTML (elements (fst (run example_host
     [''/i18n/de.json'' \<mapsto> Response True (Some (JObj [(''greeting'', JStr ''Hallo Welt'')])),
      ''/i18n/es.json'' \<mapsto> Response True (Some (JObj [(''greeting'', JStr ''Hola Mundo'')]))]
     [Load (Some ''de''), Load (Some ''es''), Settle 1, Settle 0]
     (\<lparr>lang = ''en'', elements = [\<lparr>i18n = ''greeting'', innerHTML = ''Hello World''\<rparr>],
       html_lang = ''en'', console = [], html_lang_writes = 0\<rparr>, []))) ! 0) = ''Hallo Welt'' \<and>
   lang (fst (run example_host
     [''/i18n/de.json'' \<mapsto> Response True (Some (JObj [(''greeting'', JStr ''Hallo Welt'')])),
      ''/i18n/es.json'' \<mapsto> Response True (Some (JObj [(''greeting'', JStr ''Hola Mundo'')]))]
     [Load (Some ''de''), Load (Some ''es''), Settle 0, Settle 0]
     (\<lparr>lang = ''en'', elements = [\<lparr>i18n = ''greeting'', innerHTML = ''Hello World''\<rparr>],
       html_lang = ''en'', console = [], html_lang_writes = 0\<rparr>, []))) = ''es''"
proof -
  let ?net = "[''/i18n/de.json'' \<mapsto> Response True (Some (JObj [(''greeting'', JStr ''Hallo Welt'')])),
      ''/i18n/es.json'' \<mapsto> Response True (Some (JObj [(''greeting'', JStr ''Hola Mundo'')]))]"
  let ?w = "\<lparr>lang = ''en'', elements = [\<lparr>i18n = ''greeting'', innerHTML = ''Hello World''\<rparr>],
       html_lang = ''en'', console = [], html_lang_writes = 0\<rparr>"
  have de: "''de'' \<noteq> []" and es: "''es'' \<noteq> []"
    by simp_all
  have rde: "retrieve ?net ''/i18n/de.json'' = Inr (JObj [(''greeting'', JStr ''Hallo Welt'')])"
    and res: "retrieve ?net ''/i18n/es.json'' = Inr (JObj [(''greeting'', JStr ''Hola Mundo'')])"
    by (simp_all add: retrieve_def fetch_def res_json_def)
  show ?thesis
    using overlapping_loads [OF de es, of example_host ?net ?w
        "JObj [(''greeting'', JStr ''Hola Mundo'')]" 0 "''Hola Mundo''"]
      overlapping_loads [OF de es, of example_host ?net ?w
        "JObj [(''greeting'', JStr ''Hallo Welt'')]" 0 "''Hallo Welt''"]
      rde res
    by simp
qed

text \<open>
  Claim C9 as stated fails: the retrieval that ends last does not determine the active
  language. After \<^verbatim>\<open>load("de")\<close> and \<^verbatim>\<open>load("es")\<close>, with the retrieval of
  \<^verbatim>\<open>de.json\<close> ending last, the content is the German one and the active language is
  \<^verbatim>\<open>"es"\<close>.
\<close>

theorem overlapping_loads_lang_counterexample:
  "run example_host
     [''/i18n/de.json'' \<mapsto> Response True (Some (JObj [(''greeting'', JStr ''Hallo Welt'')])),
      ''/i18n/es.json'' \<mapsto> Response True (Some (JObj [(''greeting'', JStr ''Hola Mundo'')]))]
     [Load (Some ''de''), Load (Some ''es''), Settle 1, Settle 0]
     (\<lparr>lang = ''en'', elements = [\<lparr>i18n = ''greeting'', innerHTML = ''Hello World''\<rparr>],
       html_lang = ''en'', console = [], html_lang_writes = 0\<rparr>, []) =
   (\<lparr>lang = ''es'', elements = [\<lparr>i18n = ''greeting'', innerHTML = ''Hallo Welt''\<rparr>],
      html_lang = ''en'', console = [], html_lang_writes = 0\<rparr>, []) \<and>
   lang (fst (run example_host
     [''/i18n/de.json'' \<mapsto> Response True (Some (JObj [(''greeting'', JStr ''Hallo Welt'')])),
      ''/i18n/es.json'' \<mapsto> Response True (Some (JObj [(''greeting'', JStr ''Hola Mundo'')]))]
     [Load (Some ''de''), Load (Some ''es''), Settle 1, Settle 0]
     (\<lparr>lang = ''en'', elements = [\<lparr>i18n = ''greeting'', innerHTML = ''Hello World''\<rparr>],
       html_lang = ''en'', console = [], html_lang_writes = 0\<rparr>, []))) \<noteq> ''de''"
  by (simp add: run_def load_set_lang_def load_url_def retrieve_def fetch_def res_json_def
      load_settle_json translate_def translate_element_def)

end
